theory Spec2Isabelle
  imports Complex_Main "HOL-Library.Log_Nat" "HOL-Library.AList"
begin

section \<open>The CORS proxy demo: per-host backoff ledger and forwarding\<close>

text \<open>
  A shallow embedding of \<^verbatim>\<open>corsproxydemo.py\<close>: the class \<^verbatim>\<open>CorsProxyServer\<close> with its
  backoff ledger (\<^verbatim>\<open>_active_backoff\<close>, \<^verbatim>\<open>_register_backoff\<close>, \<^verbatim>\<open>_clear_backoff\<close>), the
  target validation (\<^verbatim>\<open>_parse_target\<close>, \<^verbatim>\<open>_host_key\<close>) and the handler \<^verbatim>\<open>proxy_raw\<close>.
  The object \<^verbatim>\<open>self\<close> is a record passed in and returned; an exception is a value of
  the type \<open>error\<close>; the system clock, the URL parser and the upstream server are
  arguments.
\<close>

subsection \<open>Python numbers: binary64 floats, \<^verbatim>\<open>int()\<close>, \<^verbatim>\<open>str()\<close>\<close>

text \<open>
  A Python \<^verbatim>\<open>float\<close> is an IEEE 754 binary64 value. The finite ones are kept as the
  rationals they denote (the sign of zero is dropped: no operation below reads it).
  \<open>round_binary64 q\<close> is the value nearest to \<open>q\<close> with a 53-bit significand, ties to
  the even significand, subnormal below \<open>2\<^sup>-\<^sup>1\<^sup>0\<^sup>2\<^sup>2\<close>; it is what CPython's correctly
  rounded \<^verbatim>\<open>int / int\<close> and string-to-float conversion return while the result is
  below \<open>2\<^sup>1\<^sup>0\<^sup>2\<^sup>4\<close>.
\<close>

datatype pyfloat = Finite rat | Infinity bool | NaN

definition round_half_even :: "rat \<Rightarrow> int" where
  "round_half_even x =
     (let f = \<lfloor>x\<rfloor>; d = x - of_int f
      in if d < 1 / 2 then f else if 1 / 2 < d then f + 1 else if even f then f else f + 1)"

text \<open>For \<open>q > 0\<close>, the \<open>e\<close> with \<open>2\<^sup>e \<le> q < 2\<^sup>e\<^sup>+\<^sup>1\<close>.\<close>

definition binary_exponent :: "rat \<Rightarrow> int" where
  "binary_exponent q =
     (let (a, b) = quotient_of q; k = bitlen a - bitlen b
      in if 2 powi k \<le> q then k else k - 1)"

definition round_binary64 :: "rat \<Rightarrow> rat" where
  "round_binary64 q =
     (if q = 0 then 0
      else let u = 2 powi (max (binary_exponent \<bar>q\<bar>) (- 1022) - 52)
           in sgn q * of_int (round_half_even (\<bar>q\<bar> / u)) * u)"

text \<open>A real number as a float: overflow gives an infinity (\<open>Infinity True\<close> is \<open>-inf\<close>).\<close>

definition float_of_rat :: "rat \<Rightarrow> pyfloat" where
  "float_of_rat q =
     (let r = round_binary64 q
      in if 2 ^ 1024 \<le> \<bar>r\<bar> then Infinity (q < 0) else Finite r)"

datatype error =
    HTTPException int string "(string \<times> string) list"
  | InvalidURL string
  | OverflowError
  | ValueError
  | RuntimeError string

text \<open>
  \<^verbatim>\<open>int(x)\<close> of a float truncates toward zero; it raises \<^verbatim>\<open>OverflowError\<close> on an
  infinity and \<^verbatim>\<open>ValueError\<close> on a NaN.
\<close>

definition trunc_toward_zero :: "rat \<Rightarrow> int" where
  "trunc_toward_zero q = (if 0 \<le> q then \<lfloor>q\<rfloor> else \<lceil>q\<rceil>)"

fun py_int :: "pyfloat \<Rightarrow> error + int" where
  "py_int (Finite q) = Inr (trunc_toward_zero q)"
| "py_int (Infinity _) = Inl OverflowError"
| "py_int NaN = Inl ValueError"

subsection \<open>Python strings: \<^verbatim>\<open>lower()\<close>, \<^verbatim>\<open>str(int)\<close>, \<^verbatim>\<open>float(str)\<close>\<close>

text \<open>
  Header names and values are ASCII strings. \<^verbatim>\<open>str.lower()\<close> maps \<^verbatim>\<open>A\<close>..\<^verbatim>\<open>Z\<close> to
  \<^verbatim>\<open>a\<close>..\<^verbatim>\<open>z\<close> and leaves every other ASCII character alone.
\<close>

definition lower_char :: "char \<Rightarrow> char" where
  "lower_char c =
     (let n = of_char c :: int in if 65 \<le> n \<and> n \<le> 90 then char_of (n + 32) else c)"

definition lower :: "string \<Rightarrow> string" where
  "lower s = map lower_char s"

text \<open>\<^verbatim>\<open>str(n)\<close> of an \<^verbatim>\<open>int\<close>: its decimal digits, after a minus sign when negative.\<close>

function digits_of :: "int \<Rightarrow> string" where
  "digits_of n =
     (if n < 10 then [char_of (48 + n)] else digits_of (n div 10) @ [char_of (48 + n mod 10)])"
  by pat_completeness auto
termination
  by (relation "measure nat") auto

declare digits_of.simps [simp del]

definition str_int :: "int \<Rightarrow> string" where
  "str_int i = (if i < 0 then CHR ''-'' # digits_of (- i) else digits_of i)"

text \<open>
  \<^verbatim>\<open>float(s)\<close> of a string, as CPython reads it: white space is stripped at both ends;
  an underscore may stand between two digits; what is left is an optional sign and
  then \<^verbatim>\<open>inf\<close>, \<^verbatim>\<open>infinity\<close> or \<^verbatim>\<open>nan\<close> in any letter case, or a decimal numeral (digits
  with an optional point, at least one digit, and an optional exponent \<^verbatim>\<open>e\<close> or \<^verbatim>\<open>E\<close>
  with an optional sign and at least one digit). The numeral's value is rounded to
  binary64; a value too large becomes an infinity. \<open>None\<close> is \<^verbatim>\<open>ValueError\<close>.

  A string here is a list of code points below 256. Before it parses, CPython turns
  every non-ASCII space into a blank and fails on any other non-ASCII character that
  is no decimal digit; below 256 the non-ASCII spaces are U+0085 and U+00A0 and there
  is no non-ASCII decimal digit, so \<open>is_space\<close> counts those two with the ASCII white
  space. (Python strings with code points from 256 on, among them further spaces and
  the decimal digits of other scripts, have no counterpart in this type.)
\<close>

definition is_space :: "char \<Rightarrow> bool" where
  "is_space c =
     (let n = of_char c :: int in (9 \<le> n \<and> n \<le> 13) \<or> n = 32 \<or> n = 133 \<or> n = 160)"

definition is_digit :: "char \<Rightarrow> bool" where
  "is_digit c = (let n = of_char c :: int in 48 \<le> n \<and> n \<le> 57)"

definition digits_value :: "string \<Rightarrow> int" where
  "digits_value ds = foldl (\<lambda>n c. 10 * n + (of_char c - 48)) 0 ds"

definition strip_space :: "string \<Rightarrow> string" where
  "strip_space s = rev (dropWhile is_space (rev (dropWhile is_space s)))"

fun underscores_ok :: "char \<Rightarrow> string \<Rightarrow> bool" where
  "underscores_ok prev [] = (prev \<noteq> CHR ''_'')"
| "underscores_ok prev (c # cs) =
     ((if c = CHR ''_'' then is_digit prev else if prev = CHR ''_'' then is_digit c else True)
      \<and> underscores_ok c cs)"

definition split_sign :: "string \<Rightarrow> bool \<times> string" where
  "split_sign s =
     (case s of
        [] \<Rightarrow> (False, [])
      | c # cs \<Rightarrow>
          if c = CHR ''-'' then (True, cs) else if c = CHR ''+'' then (False, cs) else (False, s))"

definition parse_inf_or_nan :: "string \<Rightarrow> pyfloat option" where
  "parse_inf_or_nan s =
     (let (neg, r) = split_sign s; l = lower r
      in if l = ''inf'' \<or> l = ''infinity'' then Some (Infinity neg)
         else if l = ''nan'' then Some NaN
         else None)"

definition parse_exponent :: "string \<Rightarrow> int option" where
  "parse_exponent r =
     (case r of
        [] \<Rightarrow> Some 0
      | c # cs \<Rightarrow>
          if c = CHR ''e'' \<or> c = CHR ''E''
          then (let (neg, ds) = split_sign cs
                in if ds \<noteq> [] \<and> list_all is_digit ds
                   then Some ((if neg then - 1 else 1) * digits_value ds)
                   else None)
          else None)"

definition parse_decimal :: "string \<Rightarrow> rat option" where
  "parse_decimal s =
     (let (neg, p) = split_sign s;
          ip = takeWhile is_digit p;
          r1 = dropWhile is_digit p;
          (fp, r2) = (case r1 of
                        [] \<Rightarrow> ([], [])
                      | c # cs \<Rightarrow>
                          if c = CHR ''.'' then (takeWhile is_digit cs, dropWhile is_digit cs)
                          else ([], r1))
      in if ip = [] \<and> fp = [] then None
         else (case parse_exponent r2 of
                 None \<Rightarrow> None
               | Some e \<Rightarrow>
                   Some ((if neg then - 1 else 1) * of_int (digits_value (ip @ fp))
                         * 10 powi (e - int (length fp)))))"

definition py_float :: "string \<Rightarrow> pyfloat option" where
  "py_float s =
     (let t = strip_space s
      in if t = [] \<or> \<not> underscores_ok (CHR 0x00) t then None
         else (let u = filter (\<lambda>c. c \<noteq> CHR ''_'') t
               in case parse_decimal u of
                    Some q \<Rightarrow> Some (float_of_rat q)
                  | None \<Rightarrow> parse_inf_or_nan u))"

subsection \<open>\<^verbatim>\<open>datetime\<close> and \<^verbatim>\<open>timedelta\<close>\<close>

text \<open>
  A \<^verbatim>\<open>datetime\<close> in UTC is its number of microseconds since
  \<^verbatim>\<open>0001-01-01T00:00:00\<close>, the least \<^verbatim>\<open>datetime\<close>; the greatest is
  \<^verbatim>\<open>9999-12-31T23:59:59.999999\<close>, day 3652059. Adding a \<^verbatim>\<open>timedelta\<close> raises
  \<^verbatim>\<open>OverflowError\<close> when the sum leaves that range (and so does building a
  \<^verbatim>\<open>timedelta\<close> of more than 999999999 days, which always leaves it).
  \<^verbatim>\<open>timedelta.total_seconds()\<close> is the float \<^verbatim>\<open>microseconds / 10**6\<close>.
\<close>

type_synonym datetime = int

definition DATETIME_MAX :: datetime where
  "DATETIME_MAX = 3652059 * 86400 * 1000000 - 1"

definition valid_datetime :: "datetime \<Rightarrow> bool" where
  "valid_datetime t = (0 \<le> t \<and> t \<le> DATETIME_MAX)"

definition datetime_add_seconds :: "datetime \<Rightarrow> int \<Rightarrow> error + datetime" where
  "datetime_add_seconds t secs =
     (if valid_datetime (t + secs * 1000000) then Inr (t + secs * 1000000)
      else Inl OverflowError)"

definition total_seconds :: "int \<Rightarrow> rat" where
  "total_seconds us = round_binary64 (of_int us / 1000000)"

subsection \<open>The server object and its ledger\<close>

record BackoffRecord =
  until :: datetime
  attempts :: nat
  status :: int

text \<open>
  The fields of \<^verbatim>\<open>CorsProxyServer\<close> that the ledger and the handler read.
  \<open>client\<close> tells whether \<^verbatim>\<open>self.client\<close> is set (\<^verbatim>\<open>startup\<close> has run).
  \<open>attempts\<close> is a count: the one place that builds a record stores 1 or the prior
  count plus 1.
\<close>

record CorsProxyServer =
  backoff_base_seconds :: int
  backoff_max_seconds :: int
  long_backoff_seconds :: int
  long_backoff_statuses :: "int set"
  backoffs :: "string \<rightharpoonup> BackoffRecord"
  client :: bool

text \<open>\<^verbatim>\<open>CorsProxyServer()\<close> with the defaults of \<^verbatim>\<open>__init__\<close>, before \<^verbatim>\<open>startup\<close>.\<close>

definition default_server :: CorsProxyServer where
  "default_server =
     \<lparr>backoff_base_seconds = 30, backoff_max_seconds = 900, long_backoff_seconds = 86400,
      long_backoff_statuses = {403, 404, 500}, backoffs = Map.empty, client = False\<rparr>"

text \<open>
  \<^verbatim>\<open>_active_backoff(host)\<close>, with the clock reading \<open>now\<close>: the result and the server
  after the call.
\<close>

definition active_backoff :: "CorsProxyServer \<Rightarrow> string \<Rightarrow> datetime \<Rightarrow> int option \<times> CorsProxyServer" where
  "active_backoff self host now =
     (case backoffs self host of
        None \<Rightarrow> (None, self)
      | Some record \<Rightarrow>
          if until record \<le> now
          then (None, self\<lparr>backoffs := (backoffs self)(host := None)\<rparr>)
          else (Some (trunc_toward_zero (total_seconds (until record - now))), self))"

text \<open>\<^verbatim>\<open>_clear_backoff(host)\<close>: \<^verbatim>\<open>pop\<close> with a default never raises.\<close>

definition clear_backoff :: "CorsProxyServer \<Rightarrow> string \<Rightarrow> CorsProxyServer" where
  "clear_backoff self host = self\<lparr>backoffs := (backoffs self)(host := None)\<rparr>"

text \<open>
  The \<^verbatim>\<open>try\<close> block of \<^verbatim>\<open>_register_backoff\<close>: \<^verbatim>\<open>int(float(retry_after_header))\<close> when
  the header is neither \<^verbatim>\<open>None\<close> nor empty. Only \<^verbatim>\<open>ValueError\<close> is caught.
\<close>

definition parse_retry_after :: "string option \<Rightarrow> error + int option" where
  "parse_retry_after retry_after_header =
     (case retry_after_header of
        None \<Rightarrow> Inr None
      | Some h \<Rightarrow>
          if h = [] then Inr None
          else (case py_float h of
                  None \<Rightarrow> Inr None
                | Some x \<Rightarrow>
                    (case py_int x of
                       Inr n \<Rightarrow> Inr (Some n)
                     | Inl e \<Rightarrow> if e = ValueError then Inr None else Inl e)))"

text \<open>
  The status branch of \<^verbatim>\<open>_register_backoff\<close> (lines 174 to 183): the new attempt count
  and the delay before the header is looked at.
\<close>

definition backoff_step :: "CorsProxyServer \<Rightarrow> string \<Rightarrow> int \<Rightarrow> nat \<times> int" where
  "backoff_step self host status_code =
     (if status_code \<in> long_backoff_statuses self then (1, long_backoff_seconds self)
      else (let n = (case backoffs self host of None \<Rightarrow> 0 | Some prior \<Rightarrow> attempts prior) + 1
            in (n, min (backoff_base_seconds self * 2 ^ (n - 1)) (backoff_max_seconds self))))"

text \<open>
  \<^verbatim>\<open>_register_backoff(host, status_code, retry_after_header)\<close> with the clock reading
  \<open>now\<close>: the delay or the exception raised, and the server after the call (unchanged
  when it raises: the record is stored last).
\<close>

definition register_backoff ::
  "CorsProxyServer \<Rightarrow> string \<Rightarrow> int \<Rightarrow> string option \<Rightarrow> datetime \<Rightarrow> (error + int) \<times> CorsProxyServer" where
  "register_backoff self host status_code retry_after_header now =
     (case parse_retry_after retry_after_header of
        Inl e \<Rightarrow> (Inl e, self)
      | Inr retry_after \<Rightarrow>
          (let (n, delay0) = backoff_step self host status_code;
               delay = (case retry_after of None \<Rightarrow> delay0 | Some r \<Rightarrow> max delay0 r)
           in case datetime_add_seconds now delay of
                Inl e \<Rightarrow> (Inl e, self)
              | Inr t \<Rightarrow>
                  (Inr delay,
                   self\<lparr>backoffs := (backoffs self)
                     (host \<mapsto> \<lparr>until = t, attempts = n, status = status_code\<rparr>)\<rparr>)))"

text \<open>
  A run of \<^verbatim>\<open>_register_backoff\<close> calls for one host with no header, one call per status
  and clock reading: the results in order, and the server at the end.
\<close>

fun register_failures ::
  "CorsProxyServer \<Rightarrow> string \<Rightarrow> (int \<times> datetime) list \<Rightarrow> (error + int) list \<times> CorsProxyServer" where
  "register_failures self host [] = ([], self)"
| "register_failures self host ((status_code, now) # rest) =
     (let (r, self1) = register_backoff self host status_code None now;
          (rs, self2) = register_failures self1 host rest
      in (r # rs, self2))"

subsection \<open>Target validation\<close>

text \<open>
  \<^verbatim>\<open>httpx.URL\<close> is not part of the repository: it is the argument \<open>URL_ctor\<close>, which
  returns the parsed URL (scheme, host and \<^verbatim>\<open>str(url)\<close>) or raises
  \<^verbatim>\<open>httpx.InvalidURL\<close> with a message (\<open>Inl\<close>).
\<close>

record URL =
  url_scheme :: string
  url_host :: string
  url_string :: string

type_synonym url_parser = "string \<Rightarrow> string + URL"

definition parse_target :: "url_parser \<Rightarrow> string \<Rightarrow> error + string" where
  "parse_target URL_ctor raw_url =
     (if raw_url = [] then Inl (HTTPException 400 ''Missing url parameter'' [])
      else (case URL_ctor raw_url of
              Inl msg \<Rightarrow> Inl (InvalidURL msg)
            | Inr target \<Rightarrow>
                if url_scheme target \<notin> {''http'', ''https''} \<or> url_host target = []
                then Inl (HTTPException 400
                            ''Only absolute http(s) URLs with a host are allowed'' [])
                else Inr (url_string target)))"

definition host_key :: "url_parser \<Rightarrow> string \<Rightarrow> error + string" where
  "host_key URL_ctor target =
     (case URL_ctor target of
        Inl msg \<Rightarrow> Inl (InvalidURL msg)
      | Inr parsed \<Rightarrow>
          if url_host parsed = [] then Inl (HTTPException 400 ''Target host is required'' [])
          else Inr (url_host parsed))"

subsection \<open>Forwarding\<close>

definition HOP_BY_HOP_HEADERS :: "string set" where
  "HOP_BY_HOP_HEADERS =
     {''connection'', ''keep-alive'', ''proxy-authenticate'', ''proxy-authorization'',
      ''te'', ''trailer'', ''transfer-encoding'', ''upgrade''}"

text \<open>
  A Python \<^verbatim>\<open>dict\<close> of strings is an association list with distinct keys in insertion
  order: \<^verbatim>\<open>d[k] = v\<close> is \<open>AList.update k v d\<close>, \<^verbatim>\<open>d.pop(k, None)\<close> is
  \<open>AList.delete k d\<close>, \<^verbatim>\<open>d.get(k)\<close> is \<open>map_of d k\<close>.

  \<^verbatim>\<open>httpx.Headers\<close> is not part of the repository. Its \<^verbatim>\<open>items()\<close> gives every header
  once under its lower-cased name, the values of a repeated name joined by a comma and
  a space; \<open>headers_items\<close> computes that from the header lines as the upstream sent
  them. Its \<^verbatim>\<open>get(name)\<close> is \<open>map_of (headers_items raw) (lower name)\<close>.
\<close>

definition items_step :: "string \<times> string \<Rightarrow> (string \<times> string) list \<Rightarrow> (string \<times> string) list" where
  "items_step =
     (\<lambda>(k, v) d. case map_of d (lower k) of
                    None \<Rightarrow> d @ [(lower k, v)]
                  | Some old \<Rightarrow> AList.update (lower k) (old @ '', '' @ v) d)"

definition headers_items :: "(string \<times> string) list \<Rightarrow> (string \<times> string) list" where
  "headers_items raw = fold items_step raw []"

text \<open>
  Lines 296 to 302 of \<^verbatim>\<open>proxy_raw\<close>: the dict comprehension over the upstream's header
  items and the two \<^verbatim>\<open>pop\<close> calls.
\<close>

definition response_headers :: "(string \<times> string) list \<Rightarrow> (string \<times> string) list" where
  "response_headers items =
     AList.delete ''content-encoding''
       (AList.delete ''content-length''
          (fold (\<lambda>(k, v) d. AList.update k v d)
             (filter (\<lambda>(k, v). lower k \<notin> HOP_BY_HOP_HEADERS) items) []))"

text \<open>
  The inbound request's headers, as Starlette holds them: names in lower case,
  \<^verbatim>\<open>get\<close> lower-cases the name asked for and returns the first match.
  \<^verbatim>\<open>x or d\<close> is \<open>d\<close> when \<open>x\<close> is \<^verbatim>\<open>None\<close> or empty.
\<close>

definition request_get :: "(string \<times> string) list \<Rightarrow> string \<Rightarrow> string option" where
  "request_get hs name = map_of hs (lower name)"

definition or_default :: "string option \<Rightarrow> string \<Rightarrow> string" where
  "or_default x d = (case x of None \<Rightarrow> d | Some v \<Rightarrow> if v = [] then d else v)"

definition outbound_headers :: "(string \<times> string) list \<Rightarrow> string \<Rightarrow> (string \<times> string) list" where
  "outbound_headers request_headers target =
     [(''User-Agent'', or_default (request_get request_headers ''user-agent'')
         ''Mozilla/5.0 (Windows NT 10.0; Win64; x64) AppleWebKit/537.36 (KHTML, like Gecko) Chrome/120.0.0.0 Safari/537.36''),
      (''Accept'', or_default (request_get request_headers ''accept'')
         ''application/rss+xml,application/xml;q=0.9,text/xml;q=0.8,*/*;q=0.7''),
      (''Accept-Language'', or_default (request_get request_headers ''accept-language'')
         ''en-US,en;q=0.9''),
      (''Referer'', or_default (request_get request_headers ''referer'') target)]"

text \<open>
  The upstream server is the argument \<open>client_get\<close>: for a target and the outbound
  headers, the response (status, header lines, body) or \<^verbatim>\<open>httpx.RequestError\<close> with its
  message (\<open>Inl\<close>).
\<close>

record UpstreamResponse =
  up_status_code :: int
  up_headers :: "(string \<times> string) list"
  up_content :: string

type_synonym upstream = "string \<Rightarrow> (string \<times> string) list \<Rightarrow> string + UpstreamResponse"

record Response =
  content :: string
  status_code :: int
  headers :: "(string \<times> string) list"
  media_type :: "string option"

text \<open>
  \<^verbatim>\<open>proxy_raw(request, url)\<close>. \<open>now1\<close> is the clock as \<^verbatim>\<open>_active_backoff\<close> reads it,
  \<open>now2\<close> as \<^verbatim>\<open>_register_backoff\<close> reads it. The result is the response or the
  exception raised, the server after the call, and the upstream requests made
  (target and headers), in order.
\<close>

definition proxy_raw ::
  "url_parser \<Rightarrow> upstream \<Rightarrow> datetime \<Rightarrow> datetime \<Rightarrow> CorsProxyServer \<Rightarrow> (string \<times> string) list \<Rightarrow> string
   \<Rightarrow> (error + Response) \<times> CorsProxyServer \<times> (string \<times> (string \<times> string) list) list" where
  "proxy_raw URL_ctor client_get now1 now2 self request_headers url =
     (case parse_target URL_ctor url of
        Inl e \<Rightarrow> (Inl e, self, [])
      | Inr target \<Rightarrow>
     (case host_key URL_ctor target of
        Inl e \<Rightarrow> (Inl e, self, [])
      | Inr hk \<Rightarrow>
     (let (wait, self1) = active_backoff self hk now1
      in if (case wait of None \<Rightarrow> False | Some w \<Rightarrow> w \<noteq> 0)
         then (Inl (HTTPException 429 ''Backoff in effect for upstream host''
                      [(''Retry-After'', str_int (the wait))]), self1, [])
         else if \<not> client self1
         then (Inl (RuntimeError ''HTTP client not initialised''), self1, [])
         else
     (let sent = outbound_headers request_headers target
      in case client_get target sent of
           Inl exc \<Rightarrow>
             (case register_backoff self1 hk 503 None now2 of
                (Inl e, self2) \<Rightarrow> (Inl e, self2, [(target, sent)])
              | (Inr delay, self2) \<Rightarrow>
                  (Inl (HTTPException 502 (''Upstream connection failed: '' @ exc)
                          [(''Retry-After'', str_int delay)]), self2, [(target, sent)]))
         | Inr up \<Rightarrow>
             (let st = up_status_code up;
                  hs = response_headers (headers_items (up_headers up));
                  mt = map_of (headers_items (up_headers up)) ''content-type''
              in if st = 429 \<or> st \<in> long_backoff_statuses self1
                 then (case register_backoff self1 hk st (map_of hs ''Retry-After'') now2 of
                         (Inl e, self2) \<Rightarrow> (Inl e, self2, [(target, sent)])
                       | (Inr delay, self2) \<Rightarrow>
                           (Inr \<lparr>content = up_content up, status_code = st,
                                 headers = AList.update ''Retry-After'' (str_int delay) hs,
                                 media_type = mt\<rparr>, self2, [(target, sent)]))
                 else (Inr \<lparr>content = up_content up, status_code = st, headers = hs,
                             media_type = mt\<rparr>,
                       clear_backoff self1 hk, [(target, sent)]))))))"

section \<open>Properties\<close>

subsection \<open>Rounding to binary64 and whole seconds\<close>

lemma round_half_even_lower: "of_int \<lfloor>x\<rfloor> \<le> (of_int (round_half_even x) :: rat)"
  by (simp add: round_half_even_def Let_def)

lemma round_half_even_upper: "(of_int (round_half_even x) :: rat) \<le> x + 1 / 2"
  unfolding round_half_even_def Let_def
  by (auto simp: not_less) linarith+

lemma binary_exponent_le:
  assumes "0 < q"
  shows "2 powi (binary_exponent q) \<le> q"
proof -
  obtain a b where ab: "quotient_of q = (a, b)"
    by (cases "quotient_of q")
  have b: "0 < b" using ab by (rule quotient_of_denom_pos)
  have q: "q = of_int a / of_int b" using ab by (rule quotient_of_div)
  have a: "0 < a" using assms b unfolding q by (simp add: zero_less_divide_iff)
  define la lb where "la = bitlen a" and "lb = bitlen b"
  have la: "2 ^ nat (la - 1) \<le> a" and la1: "1 \<le> la"
    using bitlen_bounds[OF a] a by (auto simp: la_def bitlen_alt_def)
  have lb: "b < 2 ^ nat lb" and lb0: "0 \<le> lb"
    using bitlen_bounds[OF b] by (auto simp: lb_def bitlen_nonneg)
  have "la - lb - 1 = (la - 1) - lb" by simp
  then have "(2::rat) powi (la - lb - 1) = 2 powi (la - 1) / 2 powi lb"
    by (simp only: power_int_diff[of "2::rat" "la - 1" lb, simplified])
  also have "\<dots> = 2 ^ nat (la - 1) / 2 ^ nat lb"
    using la1 lb0 by (simp add: power_int_def)
  also have "\<dots> \<le> of_int a / 2 ^ nat lb"
  proof -
    have "(2::rat) ^ nat (la - 1) \<le> of_int a"
      using la by (metis of_int_le_iff of_int_numeral of_int_power)
    then show ?thesis by (simp add: divide_right_mono)
  qed
  also have "\<dots> \<le> of_int a / of_int b"
  proof -
    have "(of_int b :: rat) \<le> 2 ^ nat lb"
      using lb by (metis less_imp_le of_int_le_iff of_int_numeral of_int_power)
    then show ?thesis using a b by (simp add: frac_le)
  qed
  finally have "(2::rat) powi (la - lb - 1) \<le> q" unfolding q .
  then show ?thesis
    by (simp add: binary_exponent_def ab la_def lb_def Let_def)
qed

lemma trunc_total_seconds:
  assumes "0 \<le> us" "us < 2 ^ 33 * 1000000"
  shows "trunc_toward_zero (total_seconds us) = us div 1000000"
proof (cases "us = 0")
  case True
  then show ?thesis by (simp add: total_seconds_def round_binary64_def trunc_toward_zero_def)
next
  case False
  define q :: rat where "q = of_int us / 1000000"
  define t where "t = us div 1000000"
  have qpos: "0 < q" using False assms by (simp add: q_def)
  have t_le: "of_int t \<le> q"
  proof -
    have "t * 1000000 \<le> us" unfolding t_def by simp
    then have "(of_int (t * 1000000) :: rat) \<le> of_int us" by (simp only: of_int_le_iff)
    then show ?thesis by (simp add: q_def le_divide_eq)
  qed
  have q_le: "q \<le> of_int t + 1 - 1 / 1000000"
  proof -
    have "us mod 1000000 < 1000000" by simp
    moreover have "us = t * 1000000 + us mod 1000000" unfolding t_def by simp
    ultimately have "us \<le> t * 1000000 + 999999" by linarith
    then have "(of_int us :: rat) \<le> of_int (t * 1000000 + 999999)" by (simp only: of_int_le_iff)
    then show ?thesis by (simp add: q_def divide_le_eq)
  qed
  define e where "e = binary_exponent q"
  have "2 powi e \<le> q" unfolding e_def using qpos by (rule binary_exponent_le)
  moreover have "q < 2 powi 33"
  proof -
    have "(of_int us :: rat) < of_int (2 ^ 33 * 1000000)" using assms(2) by (simp only: of_int_less_iff)
    then show ?thesis by (simp add: q_def divide_less_eq)
  qed
  ultimately have "(2::rat) powi e < 2 powi 33" by simp
  then have e: "e < 33" by (rule power_int_le_imp_less_exp[rotated]) simp_all
  define p where "p = max e (- 1022) - 52"
  define n where "n = nat (- p)"
  have p: "p \<le> - 20" using e by (simp add: p_def)
  have n20: "20 \<le> n" using p by (simp add: n_def)
  have "(2::rat) powi p = inverse 2 ^ n"
    using p by (simp add: power_int_def n_def)
  then have u: "(2::rat) powi p = 1 / 2 ^ n"
    by (simp add: power_one_over inverse_eq_divide)
  define R where "R = round_half_even (q * 2 ^ n)"
  have res: "total_seconds us = of_int R / 2 ^ n"
    using qpos by (simp add: total_seconds_def round_binary64_def q_def[symmetric] e_def[symmetric] p_def[symmetric] u R_def Let_def)
  have lower: "of_int t \<le> (of_int R :: rat) / 2 ^ n"
  proof -
    have "of_int (t * 2 ^ n) \<le> q * 2 ^ n" using t_le by simp
    then have "t * 2 ^ n \<le> \<lfloor>q * 2 ^ n\<rfloor>" by (simp only: le_floor_iff)
    then have "(of_int (t * 2 ^ n) :: rat) \<le> of_int \<lfloor>q * 2 ^ n\<rfloor>" by (simp only: of_int_le_iff)
    also have "\<dots> \<le> of_int R" unfolding R_def by (rule round_half_even_lower)
    finally show ?thesis by (simp add: le_divide_eq)
  qed
  have upper: "(of_int R :: rat) / 2 ^ n < of_int t + 1"
  proof -
    have big: "(1000000 :: rat) < 2 ^ n"
    proof -
      have "(2::rat) ^ 20 \<le> 2 ^ n" using n20 by (intro power_increasing) auto
      then show ?thesis by simp
    qed
    have "of_int R \<le> q * 2 ^ n + 1 / 2" unfolding R_def by (rule round_half_even_upper)
    also have "\<dots> \<le> (of_int t + 1 - 1 / 1000000) * 2 ^ n + 1 / 2"
      using q_le by (simp add: mult_right_mono)
    also have "\<dots> < (of_int t + 1) * 2 ^ n"
      using big by (simp add: algebra_simps)
    finally show ?thesis by (simp add: divide_less_eq)
  qed
  have "\<lfloor>(of_int R :: rat) / 2 ^ n\<rfloor> = t"
    using lower upper by (simp add: floor_unique)
  moreover have "0 \<le> (of_int R :: rat) / 2 ^ n"
  proof -
    have "0 \<le> t" unfolding t_def using assms(1) by (simp add: pos_imp_zdiv_nonneg_iff)
    then have "(0::rat) \<le> of_int t" by simp
    then show ?thesis using lower by linarith
  qed
  ultimately show ?thesis
    by (simp add: res trunc_toward_zero_def t_def)
qed

lemma round_half_even_nonneg: "0 \<le> x \<Longrightarrow> 0 \<le> round_half_even x"
  by (simp add: round_half_even_def Let_def)

lemma trunc_total_seconds_nonneg:
  assumes "0 \<le> us"
  shows "0 \<le> trunc_toward_zero (total_seconds us)"
proof -
  define q :: rat where "q = of_int us / 1000000"
  have q: "0 \<le> q" using assms by (simp add: q_def)
  have "0 \<le> round_binary64 q"
  proof (cases "q = 0")
    case True
    then show ?thesis by (simp add: round_binary64_def)
  next
    case False
    define u :: rat where "u = 2 powi (max (binary_exponent \<bar>q\<bar>) (- 1022) - 52)"
    have u: "0 < u" by (simp add: u_def)
    have "0 \<le> \<bar>q\<bar> / u" using u by simp
    then have "0 \<le> round_half_even (\<bar>q\<bar> / u)" by (rule round_half_even_nonneg)
    then have "0 \<le> sgn q * of_int (round_half_even (\<bar>q\<bar> / u)) * u"
      using q u False by (simp add: sgn_if)
    then show ?thesis using False by (simp add: round_binary64_def u_def Let_def)
  qed
  then show ?thesis by (simp add: total_seconds_def q_def trunc_toward_zero_def)
qed

subsection \<open>The ledger\<close>

lemma register_backoff_parsed:
  assumes "parse_retry_after hdr = Inr ra" and "backoff_step s h st = (n, d0)"
    and "d = (case ra of None \<Rightarrow> d0 | Some r \<Rightarrow> max d0 r)"
  shows "register_backoff s h st hdr now =
     (if valid_datetime (now + d * 1000000)
      then (Inr d, s\<lparr>backoffs := (backoffs s)(h \<mapsto> \<lparr>until = now + d * 1000000, attempts = n, status = st\<rparr>)\<rparr>)
      else (Inl OverflowError, s))"
  using assms by (simp add: register_backoff_def datetime_add_seconds_def Let_def)

lemma parse_retry_after_None: "parse_retry_after None = Inr None"
  by (simp add: parse_retry_after_def)

lemma upt_map_shift: "map f [0..<Suc n] = f 0 # map (\<lambda>i. f (Suc i)) [0..<n]"
  by (simp only: upt_conv_Cons[of 0 "Suc n"] list.map map_Suc_upt[symmetric] map_map o_def)

lemma register_failures_short:
  assumes "(case backoffs s h of None \<Rightarrow> 0 | Some p \<Rightarrow> attempts p) = k"
    and "\<forall>c \<in> set calls. fst c \<notin> long_backoff_statuses s"
    and "\<forall>i < length calls. valid_datetime
           (snd (calls ! i) + min (backoff_base_seconds s * 2 ^ (k + i)) (backoff_max_seconds s) * 1000000)"
  shows "fst (register_failures s h calls) =
           map (\<lambda>i. Inr (min (backoff_base_seconds s * 2 ^ (k + i)) (backoff_max_seconds s)))
             [0..<length calls]"
  using assms
proof (induction calls arbitrary: s k)
  case Nil
  then show ?case by simp
next
  case (Cons c calls)
  obtain st now where c: "c = (st, now)" by (cases c)
  define d where "d = min (backoff_base_seconds s * 2 ^ k) (backoff_max_seconds s)"
  define s1 where "s1 = s\<lparr>backoffs := (backoffs s)(h \<mapsto> \<lparr>until = now + d * 1000000, attempts = Suc k, status = st\<rparr>)\<rparr>"
  have short: "st \<notin> long_backoff_statuses s" using Cons.prems(2) c by simp
  have step: "backoff_step s h st = (Suc k, d)"
    using short Cons.prems(1) by (simp add: backoff_step_def d_def Let_def)
  have valid: "valid_datetime (now + d * 1000000)"
    using Cons.prems(3)[rule_format, of 0] c by (simp add: d_def)
  have reg: "register_backoff s h st None now = (Inr d, s1)"
    using register_backoff_parsed[OF parse_retry_after_None step, of d now] valid
    by (simp add: s1_def)
  have "fst (register_failures s1 h calls) =
          map (\<lambda>i. Inr (min (backoff_base_seconds s1 * 2 ^ (Suc k + i)) (backoff_max_seconds s1)))
            [0..<length calls]"
  proof (rule Cons.IH)
    show "(case backoffs s1 h of None \<Rightarrow> 0 | Some p \<Rightarrow> attempts p) = Suc k"
      by (simp add: s1_def)
    show "\<forall>c\<in>set calls. fst c \<notin> long_backoff_statuses s1"
      using Cons.prems(2) by (simp add: s1_def)
    show "\<forall>i<length calls. valid_datetime
           (snd (calls ! i) + min (backoff_base_seconds s1 * 2 ^ (Suc k + i)) (backoff_max_seconds s1) * 1000000)"
    proof (intro allI impI)
      fix i assume "i < length calls"
      then show "valid_datetime
           (snd (calls ! i) + min (backoff_base_seconds s1 * 2 ^ (Suc k + i)) (backoff_max_seconds s1) * 1000000)"
        using Cons.prems(3)[rule_format, of "Suc i"] by (simp add: s1_def)
    qed
  qed
  then have rest: "fst (register_failures s1 h calls) =
          map (\<lambda>i. Inr (min (backoff_base_seconds s * 2 ^ (k + Suc i)) (backoff_max_seconds s)))
            [0..<length calls]"
    by (simp add: s1_def)
  show ?case
    unfolding c length_Cons upt_map_shift
    using reg rest by (simp add: d_def case_prod_beta)
qed

text \<open>
  A header that \<^verbatim>\<open>float\<close> rejects (an HTTP date, say) counts as absent, and so does
  \<^verbatim>\<open>nan\<close>, for which \<^verbatim>\<open>int\<close> raises the \<^verbatim>\<open>ValueError\<close> that is caught.
\<close>

lemma register_backoff_malformed_header:
  "py_float hv = None \<Longrightarrow>
     register_backoff s h st (Some hv) now = register_backoff s h st None now"
  by (simp add: register_backoff_def parse_retry_after_def)

lemma py_float_http_date: "py_float ''Wed, 21 Oct 2015 07:28:00 GMT'' = None"
  by code_simp

lemma parse_retry_after_nan: "parse_retry_after (Some ''nan'') = Inr None"
  by code_simp

text \<open>A no-break space (U+00A0) before the digits is stripped like a blank.\<close>

lemma parse_retry_after_nbsp: "parse_retry_after (Some (CHR 0xA0 # ''120'')) = Inr (Some 120)"
  by code_simp

text \<open>
  C3 (the code departs from it). \<^verbatim>\<open>_register_backoff\<close> is to succeed for every header
  value, a malformed one counting as absent. The \<^verbatim>\<open>try\<close> block catches \<^verbatim>\<open>ValueError\<close>
  only: for the header \<^verbatim>\<open>inf\<close>, \<^verbatim>\<open>float\<close> returns an infinity and \<^verbatim>\<open>int\<close> raises
  \<^verbatim>\<open>OverflowError\<close>, which leaves \<^verbatim>\<open>_register_backoff\<close> with no delay returned and no
  record written, whatever the host, the status, the clock and the ledger.
\<close>

theorem register_backoff_infinite_header_raises:
  "register_backoff s h st (Some ''inf'') now = (Inl OverflowError, s)"
proof -
  have "parse_retry_after (Some ''inf'') = Inl OverflowError"
    by code_simp
  then show ?thesis
    by (simp add: register_backoff_def)
qed

text \<open>
  C4. Starting with no record for the host, \<open>N \<ge> 1\<close> consecutive calls of
  \<^verbatim>\<open>_register_backoff\<close> with statuses outside the long-backoff set and no header
  return the delays \<open>min (base * 2\<^sup>i) max\<close> for \<open>i = 0, \<dots>, N - 1\<close>; the \<open>N\<close>-th is
  \<open>min (base * 2\<^sup>N\<^sup>-\<^sup>1) max\<close>. The clock readings are any for which each new
  \<^verbatim>\<open>until\<close> is a \<^verbatim>\<open>datetime\<close>.
\<close>

theorem consecutive_short_backoff_delays:
  assumes "backoffs s h = None" and "1 \<le> N" and "length calls = N"
    and "\<forall>c \<in> set calls. fst c \<notin> long_backoff_statuses s"
    and "\<forall>i < N. valid_datetime
           (snd (calls ! i) + min (backoff_base_seconds s * 2 ^ i) (backoff_max_seconds s) * 1000000)"
  shows "fst (register_failures s h calls) =
           map (\<lambda>i. Inr (min (backoff_base_seconds s * 2 ^ i) (backoff_max_seconds s))) [0..<N] \<and>
         fst (register_failures s h calls) ! (N - 1) =
           Inr (min (backoff_base_seconds s * 2 ^ (N - 1)) (backoff_max_seconds s))"
proof -
  have all: "fst (register_failures s h calls) =
           map (\<lambda>i. Inr (min (backoff_base_seconds s * 2 ^ i) (backoff_max_seconds s))) [0..<N]"
    using register_failures_short[of s h 0 calls] assms by simp
  have "N - 1 < N" using assms(2) by simp
  then show ?thesis unfolding all by simp
qed

theorem consecutive_short_backoff_delays_witness:
  "backoffs default_server ''x'' = None \<and>
   fst (register_failures default_server ''x''
          [(429, 63900000000000000), (429, 63900000031000000), (429, 63900000095000000)])
     = [Inr 30, Inr 60, Inr 120]"
  using consecutive_short_backoff_delays[of default_server "''x''" 3
          "[(429, 63900000000000000), (429, 63900000031000000), (429, 63900000095000000)]"]
  by (simp add: default_server_def valid_datetime_def DATETIME_MAX_def less_Suc_eq
        eval_nat_numeral)

text \<open>
  C5. With a status of the long-backoff set (403, 404 and 500 by default), whatever
  record the host had, the branch computes attempt count 1 and delay
  \<^verbatim>\<open>long_backoff_seconds\<close>; the call stores a record with \<^verbatim>\<open>attempts = 1\<close> and returns
  that delay (raised to the header's value when the header gives a larger one), for any
  clock reading at which the new \<^verbatim>\<open>until\<close> is a \<^verbatim>\<open>datetime\<close>.
\<close>

theorem long_backoff_resets_attempts:
  assumes "st \<in> long_backoff_statuses s"
    and "parse_retry_after hdr = Inr ra"
    and "d = (case ra of None \<Rightarrow> long_backoff_seconds s | Some r \<Rightarrow> max (long_backoff_seconds s) r)"
    and "valid_datetime (now + d * 1000000)"
  shows "backoff_step s h st = (1, long_backoff_seconds s) \<and>
         register_backoff s h st hdr now =
           (Inr d, s\<lparr>backoffs := (backoffs s)(h \<mapsto> \<lparr>until = now + d * 1000000, attempts = 1, status = st\<rparr>)\<rparr>)"
proof -
  have step: "backoff_step s h st = (1, long_backoff_seconds s)"
    using assms(1) by (simp add: backoff_step_def)
  show ?thesis
    using register_backoff_parsed[OF assms(2) step assms(3), of now] assms(4) step by simp
qed

theorem long_backoff_resets_attempts_witness:
  "register_backoff
     (default_server\<lparr>backoffs := [''y'' \<mapsto> \<lparr>until = 63900000000000000, attempts = 5, status = 429\<rparr>]\<rparr>)
     ''y'' 404 None 63900000000000000 =
   (Inr 86400,
    default_server\<lparr>backoffs := [''y'' \<mapsto> \<lparr>until = 63900086400000000, attempts = 1, status = 404\<rparr>]\<rparr>)"
proof -
  define s where "s = default_server\<lparr>backoffs := [''y'' \<mapsto> \<lparr>until = 63900000000000000, attempts = 5, status = 429\<rparr>]\<rparr>"
  have a: "404 \<in> long_backoff_statuses s"
    by (simp add: s_def default_server_def)
  have b: "(86400::int) = (case None of None \<Rightarrow> long_backoff_seconds s | Some r \<Rightarrow> max (long_backoff_seconds s) r)"
    by (simp add: s_def default_server_def)
  have c: "valid_datetime (63900000000000000 + 86400 * 1000000)"
    by (simp add: valid_datetime_def DATETIME_MAX_def)
  have "register_backoff s ''y'' 404 None 63900000000000000 =
          (Inr 86400, s\<lparr>backoffs := (backoffs s)(''y'' \<mapsto> \<lparr>until = 63900000000000000 + 86400 * 1000000, attempts = 1, status = 404\<rparr>)\<rparr>)"
    using long_backoff_resets_attempts[OF a parse_retry_after_None b c] by simp
  then show ?thesis
    by (simp add: s_def)
qed

text \<open>
  Whenever the \<^verbatim>\<open>try\<close> block yields an integer \<open>r\<close>, the delay returned is the larger
  of \<open>r\<close> and the delay of the status branch.
\<close>

lemma register_backoff_max_parsed:
  assumes "parse_retry_after hdr = Inr (Some r)"
    and "valid_datetime (now + max (snd (backoff_step s h st)) r * 1000000)"
  shows "fst (register_backoff s h st hdr now) = Inr (max (snd (backoff_step s h st)) r)"
proof -
  obtain n d0 where step: "backoff_step s h st = (n, d0)" by (cases "backoff_step s h st")
  show ?thesis
    using register_backoff_parsed[OF assms(1) step, of "max d0 r" now] assms(2) step by simp
qed

lemma parse_retry_after_finite:
  assumes "hv \<noteq> []" and "py_float hv = Some (Finite q)"
  shows "parse_retry_after (Some hv) = Inr (Some (trunc_toward_zero q))"
  using assms by (simp add: parse_retry_after_def)

lemma trunc_toward_zero_bounds:
  "q < of_int (trunc_toward_zero q) + 1 \<and> (0 \<le> q \<longrightarrow> of_int (trunc_toward_zero q) \<le> q)"
proof (cases "0 \<le> q")
  case True
  then show ?thesis by (simp add: trunc_toward_zero_def) linarith
next
  case False
  have "q \<le> of_int \<lceil>q\<rceil>" by (rule le_of_int_ceiling)
  then have "q < of_int \<lceil>q\<rceil> + 1" by linarith
  then show ?thesis using False by (simp add: trunc_toward_zero_def)
qed

text \<open>
  C6 (as the code has it). The header is read by \<^verbatim>\<open>int(float(header))\<close>: a header
  that \<^verbatim>\<open>float\<close> reads as the finite number \<open>q\<close> counts as \<open>q\<close> truncated to whole
  seconds. The delay returned is the larger of that integer and the delay of the status
  branch: never below the computed delay, never below the truncated value, hence above
  \<open>q - 1\<close>. It is not always at least \<open>q\<close>: the fraction of the header is dropped.
  This holds for every host, status and ledger, at any clock reading at which the new
  \<^verbatim>\<open>until\<close> is a \<^verbatim>\<open>datetime\<close>.
\<close>

theorem retry_after_truncated_extends_delay:
  assumes "hv \<noteq> []" and "py_float hv = Some (Finite q)"
    and "valid_datetime
           (now + max (snd (backoff_step s h st)) (trunc_toward_zero q) * 1000000)"
  shows "\<exists>d. fst (register_backoff s h st (Some hv) now) = Inr d \<and>
             d = max (snd (backoff_step s h st)) (trunc_toward_zero q) \<and>
             snd (backoff_step s h st) \<le> d \<and>
             trunc_toward_zero q \<le> d \<and>
             q < of_int d + 1 \<and>
             (0 \<le> q \<longrightarrow> trunc_toward_zero q = \<lfloor>q\<rfloor>)"
proof -
  let ?d = "max (snd (backoff_step s h st)) (trunc_toward_zero q)"
  have p: "parse_retry_after (Some hv) = Inr (Some (trunc_toward_zero q))"
    using assms(1,2) by (rule parse_retry_after_finite)
  have r: "fst (register_backoff s h st (Some hv) now) = Inr ?d"
    using p assms(3) by (rule register_backoff_max_parsed)
  have "q < of_int (trunc_toward_zero q) + 1"
    using trunc_toward_zero_bounds[of q] by simp
  moreover have "(of_int (trunc_toward_zero q) :: rat) \<le> of_int ?d"
    by simp
  ultimately have "q < of_int ?d + 1" by linarith
  then show ?thesis using r by (simp add: trunc_toward_zero_def)
qed

theorem retry_after_truncated_extends_delay_witness:
  "py_float ''120.5'' = Some (Finite (241 / 2)) \<and>
   fst (register_backoff default_server ''x'' 429 (Some ''120.5'') 63900000000000000) = Inr 120"
proof -
  have p: "py_float ''120.5'' = Some (Finite (241 / 2))"
    by code_simp
  have "\<lfloor>241 / 2 :: rat\<rfloor> = 120"
    by (rule floor_unique) simp_all
  then have t: "trunc_toward_zero (241 / 2) = 120"
    by (simp add: trunc_toward_zero_def)
  have step: "backoff_step default_server ''x'' 429 = (1, 30)"
    by (simp add: backoff_step_def default_server_def)
  have v: "valid_datetime (63900000000000000 +
             max (snd (backoff_step default_server ''x'' 429)) (trunc_toward_zero (241 / 2)) * 1000000)"
    by (simp add: step t valid_datetime_def DATETIME_MAX_def)
  have ne: "''120.5'' \<noteq> []" by simp
  from retry_after_truncated_extends_delay[OF ne p v]
  show ?thesis using p by (auto simp: step t)
qed

text \<open>
  The header \<^verbatim>\<open>1000.9\<close> denotes 1000.9 seconds; with the default configuration the
  delay returned for it is 1000.
\<close>

theorem retry_after_fraction_counterexample:
  "fst (register_backoff default_server ''x'' 429 (Some ''1000.9'') 63900000000000000) = Inr 1000 \<and>
   parse_decimal ''1000.9'' = Some (10009 / 10) \<and>
   (of_int 1000 :: rat) < 10009 / 10"
proof -
  have p: "parse_retry_after (Some ''1000.9'') = Inr (Some 1000)"
    by code_simp
  have step: "backoff_step default_server ''x'' 429 = (1, 30)"
    by (simp add: backoff_step_def default_server_def)
  have v: "valid_datetime (63900000000000000 +
             max (snd (backoff_step default_server ''x'' 429)) 1000 * 1000000)"
    by (simp add: step valid_datetime_def DATETIME_MAX_def)
  have r: "fst (register_backoff default_server ''x'' 429 (Some ''1000.9'') 63900000000000000) = Inr 1000"
    using register_backoff_max_parsed[OF p v] by (simp add: step)
  have d: "parse_decimal ''1000.9'' = Some (10009 / 10)"
    by code_simp
  show ?thesis using r d by simp
qed

text \<open>
  C8. Right after \<^verbatim>\<open>_clear_backoff(host)\<close>, \<^verbatim>\<open>_active_backoff(host)\<close> returns
  \<^verbatim>\<open>None\<close> at any clock reading; clearing a host that has no record changes
  nothing, and clearing twice is clearing once. \<^verbatim>\<open>_clear_backoff\<close> has no exception
  to raise: the model is a total function with no error result.
\<close>

theorem clear_backoff_contract:
  "fst (active_backoff (clear_backoff s h) h now) = None \<and>
   (backoffs s h = None \<longrightarrow> clear_backoff s h = s) \<and>
   clear_backoff (clear_backoff s h) h = clear_backoff s h"
proof -
  have "(backoffs s)(h := None) = backoffs s" if "backoffs s h = None"
    using that by (metis fun_upd_triv)
  then show ?thesis
    by (simp add: active_backoff_def clear_backoff_def)
qed

theorem clear_backoff_contract_witness:
  "backoffs default_server ''x'' = None \<and>
   clear_backoff default_server ''x'' = default_server \<and>
   fst (active_backoff
          (clear_backoff
             (default_server\<lparr>backoffs := [''z'' \<mapsto> \<lparr>until = 63900000045000000, attempts = 1, status = 429\<rparr>]\<rparr>)
             ''z'')
          ''z'' 63900000000000000) = None"
  using clear_backoff_contract[of default_server "''x''" 0]
    clear_backoff_contract[of
      "default_server\<lparr>backoffs := [''z'' \<mapsto> \<lparr>until = 63900000045000000, attempts = 1, status = 429\<rparr>]\<rparr>"
      "''z''" 63900000000000000]
  by (simp add: default_server_def)

text \<open>
  C10. An operation of the ledger on host \<open>H\<close> leaves the entry of every other host
  \<open>K\<close> as it was, present or absent: \<^verbatim>\<open>_active_backoff\<close>, \<^verbatim>\<open>_register_backoff\<close>
  (whether it returns or raises) and \<^verbatim>\<open>_clear_backoff\<close>.
\<close>

theorem ledger_frame:
  assumes "K \<noteq> H"
  shows "backoffs (snd (active_backoff s H now)) K = backoffs s K \<and>
         backoffs (snd (register_backoff s H st hdr now2)) K = backoffs s K \<and>
         backoffs (clear_backoff s H) K = backoffs s K"
  using assms
  by (auto simp: active_backoff_def register_backoff_def clear_backoff_def Let_def
           split: option.splits sum.splits prod.splits)

theorem ledger_frame_witness:
  "''k'' \<noteq> ''h'' \<and>
   backoffs (snd (register_backoff
       (default_server\<lparr>backoffs := [''k'' \<mapsto> \<lparr>until = 63900000045000000, attempts = 2, status = 429\<rparr>]\<rparr>)
       ''h'' 429 None 63900000000000000)) ''k''
     = Some \<lparr>until = 63900000045000000, attempts = 2, status = 429\<rparr>"
  using ledger_frame[of "''k''" "''h''"
      "default_server\<lparr>backoffs := [''k'' \<mapsto> \<lparr>until = 63900000045000000, attempts = 2, status = 429\<rparr>]\<rparr>"
      63900000000000000 429 None 63900000000000000]
  by simp

text \<open>
  The three branches of \<^verbatim>\<open>_active_backoff(host)\<close>: no record, \<^verbatim>\<open>None\<close> and nothing
  changed; a record whose \<^verbatim>\<open>until\<close> is not after the clock reading, the record deleted
  and \<^verbatim>\<open>None\<close>; otherwise the ledger left alone and
  \<^verbatim>\<open>int((until - now).total_seconds())\<close> returned, which is never negative and, for
  every span under \<open>2\<^sup>3\<^sup>3\<close> seconds, the floor of the seconds left.
\<close>

lemma active_backoff_branches:
  "(backoffs s h = None \<longrightarrow> active_backoff s h now = (None, s)) \<and>
   (\<forall>r. backoffs s h = Some r \<and> until r \<le> now \<longrightarrow>
        active_backoff s h now = (None, s\<lparr>backoffs := (backoffs s)(h := None)\<rparr>)) \<and>
   (\<forall>r. backoffs s h = Some r \<and> now < until r \<longrightarrow>
        active_backoff s h now = (Some (trunc_toward_zero (total_seconds (until r - now))), s) \<and>
        0 \<le> trunc_toward_zero (total_seconds (until r - now)) \<and>
        (until r - now < 2 ^ 33 * 1000000 \<longrightarrow>
           trunc_toward_zero (total_seconds (until r - now)) = (until r - now) div 1000000))"
proof (intro conjI allI impI)
  show "active_backoff s h now = (None, s)" if "backoffs s h = None"
    using that by (simp add: active_backoff_def)
next
  fix r assume "backoffs s h = Some r \<and> until r \<le> now"
  then show "active_backoff s h now = (None, s\<lparr>backoffs := (backoffs s)(h := None)\<rparr>)"
    by (simp add: active_backoff_def)
next
  fix r assume "backoffs s h = Some r \<and> now < until r"
  then show "active_backoff s h now = (Some (trunc_toward_zero (total_seconds (until r - now))), s)"
    by (simp add: active_backoff_def)
next
  fix r assume "backoffs s h = Some r \<and> now < until r"
  then have "0 \<le> until r - now" by simp
  then show "0 \<le> trunc_toward_zero (total_seconds (until r - now))"
    by (rule trunc_total_seconds_nonneg)
next
  fix r assume a: "backoffs s h = Some r \<and> now < until r" and b: "until r - now < 2 ^ 33 * 1000000"
  from a have "0 \<le> until r - now" by simp
  then show "trunc_toward_zero (total_seconds (until r - now)) = (until r - now) div 1000000"
    using b by (rule trunc_total_seconds)
qed

text \<open>With 45.5 seconds left the value is 45.\<close>

lemma active_backoff_45_5:
  "fst (active_backoff
          (default_server\<lparr>backoffs := [''z'' \<mapsto> \<lparr>until = 63900000045500000, attempts = 1, status = 429\<rparr>]\<rparr>)
          ''z'' 63900000000000000) = Some 45"
proof -
  have "trunc_toward_zero (total_seconds (63900000045500000 - 63900000000000000)) =
          (63900000045500000 - 63900000000000000) div 1000000"
    by (rule trunc_total_seconds) simp_all
  then show ?thesis by (simp add: active_backoff_def)
qed

text \<open>
  C1 (the code departs from it). For a record whose \<^verbatim>\<open>until\<close> is after the clock
  reading, \<^verbatim>\<open>_active_backoff\<close> is to return the ceiling of the seconds left, a value
  that is at least 1. While less than one second is left the ceiling is 1, and the
  call returns 0 with the record kept: \<^verbatim>\<open>int\<close> truncates. The caller's \<^verbatim>\<open>if wait:\<close>
  relies on the value being at least 1.
\<close>

theorem active_backoff_last_second_zero:
  assumes "backoffs s h = Some r" and "now < until r" and "until r - now < 1000000"
  shows "active_backoff s h now = (Some 0, s) \<and>
         \<lceil>(of_int (until r - now) :: rat) / 1000000\<rceil> = 1"
proof -
  have "trunc_toward_zero (total_seconds (until r - now)) = (until r - now) div 1000000"
    using assms(2,3) by (intro trunc_total_seconds) simp_all
  also have "\<dots> = 0" using assms(2,3) by simp
  finally have 1: "active_backoff s h now = (Some 0, s)"
    using assms(1,2) by (simp add: active_backoff_def)
  have pos: "(0::rat) < of_int (until r - now)" using assms(2) by simp
  have "(of_int (until r - now) :: rat) < of_int 1000000"
    using assms(3) by (simp only: of_int_less_iff)
  then have lt: "(of_int (until r - now) :: rat) / 1000000 \<le> 1" by simp
  have "\<lceil>(of_int (until r - now) :: rat) / 1000000\<rceil> = 1"
    using pos lt by (intro ceiling_unique) simp_all
  then show ?thesis using 1 by simp
qed

theorem active_backoff_last_second_zero_witness:
  "fst (active_backoff
          (default_server\<lparr>backoffs := [''z'' \<mapsto> \<lparr>until = 63900000000500000, attempts = 1, status = 429\<rparr>]\<rparr>)
          ''z'' 63900000000000000) = Some 0 \<and>
   backoffs (snd (active_backoff
          (default_server\<lparr>backoffs := [''z'' \<mapsto> \<lparr>until = 63900000000500000, attempts = 1, status = 429\<rparr>]\<rparr>)
          ''z'' 63900000000000000)) ''z''
     = Some \<lparr>until = 63900000000500000, attempts = 1, status = 429\<rparr> \<and>
   \<lceil>(of_int (63900000000500000 - 63900000000000000) :: rat) / 1000000\<rceil> = 1"
proof -
  define r :: BackoffRecord where "r = \<lparr>until = 63900000000500000, attempts = 1, status = 429\<rparr>"
  define s where "s = default_server\<lparr>backoffs := [''z'' \<mapsto> r]\<rparr>"
  have 1: "backoffs s ''z'' = Some r" by (simp add: s_def)
  have 2: "63900000000000000 < until r" by (simp add: r_def)
  have 3: "until r - 63900000000000000 < 1000000" by (simp add: r_def)
  have "active_backoff s ''z'' 63900000000000000 = (Some 0, s) \<and>
        \<lceil>(of_int (until r - 63900000000000000) :: rat) / 1000000\<rceil> = 1"
    using 1 2 3 by (rule active_backoff_last_second_zero)
  then show ?thesis by (simp add: s_def r_def)
qed

subsection \<open>Target validation\<close>

lemma parse_target_empty:
  "parse_target URL_ctor [] = Inl (HTTPException 400 ''Missing url parameter'' [])"
  by (simp add: parse_target_def)

lemma parse_target_parsed:
  assumes "raw \<noteq> []" and "URL_ctor raw = Inr t"
  shows "parse_target URL_ctor raw =
     (if url_scheme t \<in> {''http'', ''https''} \<and> url_host t \<noteq> [] then Inr (url_string t)
      else Inl (HTTPException 400 ''Only absolute http(s) URLs with a host are allowed'' []))"
  using assms by (simp add: parse_target_def)

text \<open>
  C7 (the code departs from it). \<^verbatim>\<open>_parse_target\<close> answers 400 for an empty string
  and for a parsed URL whose scheme is not \<^verbatim>\<open>http\<close> or \<^verbatim>\<open>https\<close> or whose host is
  empty, and returns \<^verbatim>\<open>str(target)\<close> otherwise. A string that \<^verbatim>\<open>httpx.URL\<close> refuses to
  parse is not an absolute http(s) URL either, yet for it \<^verbatim>\<open>_parse_target\<close> raises
  \<^verbatim>\<open>httpx.InvalidURL\<close>, which the function does not catch: the failure is not the
  400 \<^verbatim>\<open>HTTPException\<close>.
\<close>

theorem parse_target_invalid_url_uncaught:
  assumes "raw \<noteq> []" and "URL_ctor raw = Inl msg"
  shows "parse_target URL_ctor raw = Inl (InvalidURL msg) \<and>
         parse_target URL_ctor raw \<noteq> Inl (HTTPException 400 detail hs)"
  using assms by (simp add: parse_target_def)

theorem parse_target_invalid_url_uncaught_witness:
  "parse_target
     (\<lambda>u. if u = ''http://example.com:abc/'' then Inl ''Invalid port''
          else Inr \<lparr>url_scheme = ''http'', url_host = ''example.com'', url_string = u\<rparr>)
     ''http://example.com:abc/'' = Inl (InvalidURL ''Invalid port'')"
  using parse_target_invalid_url_uncaught[of "''http://example.com:abc/''"
      "\<lambda>u. if u = ''http://example.com:abc/'' then Inl ''Invalid port''
          else Inr \<lparr>url_scheme = ''http'', url_host = ''example.com'', url_string = u\<rparr>"
      "''Invalid port''"]
  by simp

subsection \<open>The handler\<close>

lemma py_int_raises: "py_int x = Inl e \<Longrightarrow> e = OverflowError \<or> e = ValueError"
  by (cases x) auto

lemma parse_retry_after_raises: "parse_retry_after hdr = Inl e \<Longrightarrow> e = OverflowError"
  by (auto simp: parse_retry_after_def split: option.splits if_splits sum.splits
           dest: py_int_raises)

lemma register_backoff_raises:
  assumes "register_backoff s h st hdr now = (Inl e, s')"
  shows "e = OverflowError \<and> s' = s"
proof (cases "parse_retry_after hdr")
  case (Inl e')
  then show ?thesis using assms parse_retry_after_raises[OF Inl]
    by (simp add: register_backoff_def)
next
  case (Inr ra)
  obtain n d0 where step: "backoff_step s h st = (n, d0)" by (cases "backoff_step s h st")
  show ?thesis
    using assms register_backoff_parsed[OF Inr step refl, of now]
    by (simp split: if_splits)
qed

lemma proxy_raw_throttled:
  assumes "parse_target URL_ctor url = Inr target" and "host_key URL_ctor target = Inr hk"
    and "backoffs s hk = Some r" and "now1 < until r"
    and "w = trunc_toward_zero (total_seconds (until r - now1))" and "w \<noteq> 0"
  shows "proxy_raw URL_ctor client_get now1 now2 s request_headers url =
     (Inl (HTTPException 429 ''Backoff in effect for upstream host'' [(''Retry-After'', str_int w)]),
      s, [])"
  using assms by (simp add: proxy_raw_def active_backoff_def)

text \<open>
  With 45 seconds left the request is refused with \<^verbatim>\<open>Retry-After: 45\<close>, the server is
  unchanged and no upstream request is made.
\<close>

lemma proxy_raw_throttled_45:
  "proxy_raw
     (\<lambda>u. Inr \<lparr>url_scheme = ''http'', url_host = ''z'', url_string = u\<rparr>)
     client_get 63900000000000000 now2
     (default_server\<lparr>backoffs := [''z'' \<mapsto> \<lparr>until = 63900000045000000, attempts = 1, status = 429\<rparr>],
                     client := True\<rparr>)
     request_headers ''http://z/''
   = (Inl (HTTPException 429 ''Backoff in effect for upstream host'' [(''Retry-After'', ''45'')]),
      default_server\<lparr>backoffs := [''z'' \<mapsto> \<lparr>until = 63900000045000000, attempts = 1, status = 429\<rparr>],
                     client := True\<rparr>,
      [])"
proof -
  define U :: url_parser where "U = (\<lambda>u. Inr \<lparr>url_scheme = ''http'', url_host = ''z'', url_string = u\<rparr>)"
  define r :: BackoffRecord where "r = \<lparr>until = 63900000045000000, attempts = 1, status = 429\<rparr>"
  define s where "s = default_server\<lparr>backoffs := [''z'' \<mapsto> r], client := True\<rparr>"
  have 1: "parse_target U ''http://z/'' = Inr ''http://z/''" by (simp add: parse_target_def U_def)
  have 2: "host_key U ''http://z/'' = Inr ''z''" by (simp add: host_key_def U_def)
  have 3: "backoffs s ''z'' = Some r" by (simp add: s_def)
  have 4: "63900000000000000 < until r" by (simp add: r_def)
  have 5: "(45::int) = trunc_toward_zero (total_seconds (until r - 63900000000000000))"
  proof -
    have "trunc_toward_zero (total_seconds (until r - 63900000000000000)) =
            (until r - 63900000000000000) div 1000000"
      by (rule trunc_total_seconds) (simp_all add: r_def)
    then show ?thesis by (simp add: r_def)
  qed
  have 6: "str_int 45 = ''45''" by code_simp
  have "proxy_raw U client_get 63900000000000000 now2 s request_headers ''http://z/'' =
     (Inl (HTTPException 429 ''Backoff in effect for upstream host'' [(''Retry-After'', str_int 45)]),
      s, [])"
    using 1 2 3 4 5 by (rule proxy_raw_throttled) simp
  then show ?thesis by (simp add: 6 U_def s_def r_def)
qed

text \<open>
  C2 (the code departs from it). A request for a host whose record has \<^verbatim>\<open>until\<close> in
  the future is to be refused with 429 and no upstream call. \<^verbatim>\<open>proxy_raw\<close> tests
  \<^verbatim>\<open>if wait:\<close>, and \<^verbatim>\<open>_active_backoff\<close> returns 0 while less than a second is left:
  then the upstream request is made, and no 429 \<^verbatim>\<open>HTTPException\<close> is raised, although
  the record is still in the ledger.
\<close>

theorem proxy_raw_last_second_forwards:
  assumes "parse_target URL_ctor url = Inr target" and "host_key URL_ctor target = Inr hk"
    and "backoffs s hk = Some r" and "now1 < until r" and "until r - now1 < 1000000"
    and "client s"
  shows "snd (snd (proxy_raw URL_ctor client_get now1 now2 s request_headers url)) =
           [(target, outbound_headers request_headers target)] \<and>
         fst (proxy_raw URL_ctor client_get now1 now2 s request_headers url) \<noteq>
           Inl (HTTPException 429 detail hs)"
proof -
  have "trunc_toward_zero (total_seconds (until r - now1)) = (until r - now1) div 1000000"
    using assms(4,5) by (intro trunc_total_seconds) simp_all
  also have "\<dots> = 0" using assms(4,5) by simp
  finally have w: "active_backoff s hk now1 = (Some 0, s)"
    using assms(3,4) by (simp add: active_backoff_def)
  show ?thesis
    using assms(1,2,6) w
    by (auto simp: proxy_raw_def Let_def split: sum.splits prod.splits
          dest: register_backoff_raises)
qed

theorem proxy_raw_last_second_forwards_witness:
  "proxy_raw
     (\<lambda>u. Inr \<lparr>url_scheme = ''http'', url_host = ''z'', url_string = u\<rparr>)
     (\<lambda>t sent. Inr \<lparr>up_status_code = 200, up_headers = [], up_content = ''ok''\<rparr>)
     63900000000000000 63900000000100000
     (default_server\<lparr>backoffs := [''z'' \<mapsto> \<lparr>until = 63900000000500000, attempts = 1, status = 429\<rparr>],
                     client := True\<rparr>)
     [] ''http://z/''
   = (Inr \<lparr>content = ''ok'', status_code = 200, headers = [], media_type = None\<rparr>,
      default_server\<lparr>backoffs := Map.empty, client := True\<rparr>,
      [(''http://z/'', outbound_headers [] ''http://z/'')])"
proof -
  define U :: url_parser where "U = (\<lambda>u. Inr \<lparr>url_scheme = ''http'', url_host = ''z'', url_string = u\<rparr>)"
  define C :: upstream where "C = (\<lambda>t sent. Inr \<lparr>up_status_code = 200, up_headers = [], up_content = ''ok''\<rparr>)"
  define r :: BackoffRecord where "r = \<lparr>until = 63900000000500000, attempts = 1, status = 429\<rparr>"
  define s where "s = default_server\<lparr>backoffs := [''z'' \<mapsto> r], client := True\<rparr>"
  have 1: "parse_target U ''http://z/'' = Inr ''http://z/''" by (simp add: parse_target_def U_def)
  have 2: "host_key U ''http://z/'' = Inr ''z''" by (simp add: host_key_def U_def)
  have 3: "backoffs s ''z'' = Some r" by (simp add: s_def)
  have 4: "63900000000000000 < until r" "until r - 63900000000000000 < 1000000" by (simp_all add: r_def)
  have 5: "client s" by (simp add: s_def)
  have calls: "snd (snd (proxy_raw U C 63900000000000000 63900000000100000 s [] ''http://z/'')) =
           [(''http://z/'', outbound_headers [] ''http://z/'')]"
    using proxy_raw_last_second_forwards[OF 1 2 3 4 5] by simp
  have w: "active_backoff s ''z'' 63900000000000000 = (Some 0, s)"
  proof -
    have "trunc_toward_zero (total_seconds (until r - 63900000000000000)) =
            (until r - 63900000000000000) div 1000000"
      using 4 by (intro trunc_total_seconds) simp_all
    then show ?thesis using 3 4 by (simp add: active_backoff_def r_def)
  qed
  have hi: "headers_items [] = []" by (simp add: headers_items_def)
  have rh: "response_headers [] = []" by (simp add: response_headers_def)
  have res: "proxy_raw U C 63900000000000000 63900000000100000 s [] ''http://z/'' =
     (Inr \<lparr>content = ''ok'', status_code = 200, headers = [], media_type = None\<rparr>,
      clear_backoff s ''z'', [(''http://z/'', outbound_headers [] ''http://z/'')])"
    using 1 2 5 w
    by (simp add: proxy_raw_def Let_def C_def hi rh s_def default_server_def)
  have "clear_backoff s ''z'' = default_server\<lparr>backoffs := Map.empty, client := True\<rparr>"
    by (simp add: clear_backoff_def s_def)
  then show ?thesis using res calls by (simp add: U_def C_def s_def r_def)
qed

subsection \<open>Response headers\<close>






















text \<open>
  The two \<^verbatim>\<open>pop\<close> calls themselves match the exact names only: on items whose names
  were not lower-cased, \<^verbatim>\<open>Content-Length\<close> would stay.
\<close>

lemma response_headers_exact_names:
  "response_headers [(''Content-Length'', ''10''), (''Connection'', ''close'')] =
     [(''Content-Length'', ''10'')]"
  by code_simp

end
